theory Spec2Isabelle
  imports Complex_Main
begin

section \<open>The calculator of next-calculator: state reducer and its helpers\<close>

text \<open>
  The development embeds the calculation core of the component \<open>Calculator\<close>:
  the types \<open>Operator\<close>, \<open>HistoryItem\<close>, \<open>State\<close> and \<open>Action\<close>, the helpers
  \<open>calculate\<close>, \<open>formatResult\<close>, \<open>parseDisplay\<close> and \<open>pushHistory\<close>, and the
  function \<open>reducer\<close>.
\<close>

subsection \<open>Numbers\<close>

text \<open>
  A JavaScript number is a binary64 value: a finite value, one of the two
  infinities, or NaN. A finite value is given by the rational it denotes. Every
  arithmetic operation and every reading of a decimal text yields the exact
  result rounded to the nearest binary64 value, and an infinity when that is out
  of range. The sign of a zero is not tracked; the calculator never observes it
  (it compares with \<open>=== 0\<close>, and every rendering of a negative zero is \<open>0\<close>).
\<close>

datatype number = Finite rat | Infinity | NegInfinity | NaN

definition isFinite :: "number \<Rightarrow> bool" where
  "isFinite x = (case x of Finite _ \<Rightarrow> True | _ \<Rightarrow> False)"

subsection \<open>Rounding to binary64\<close>

definition pow2 :: "int \<Rightarrow> rat" where
  "pow2 e = (if 0 \<le> e then 2 ^ nat e else 1 / 2 ^ nat (- e))"

text \<open>The number of binary digits of a positive integer.\<close>

function bit_length :: "int \<Rightarrow> nat" where
  "bit_length n = (if n \<le> 0 then 0 else Suc (bit_length (n div 2)))"
  by pat_completeness auto
termination
  by (relation "measure nat") auto

declare bit_length.simps [simp del]

text \<open>
  The binary exponent of a positive value: the \<open>e\<close> with
  \<open>2 ^ e \<le> a < 2 ^ (e + 1)\<close>. Below one, the value is doubled until it
  reaches one.
\<close>

function small_exponent2 :: "rat \<Rightarrow> nat" where
  "small_exponent2 a = (if a \<le> 0 \<or> 1 \<le> a then 0 else Suc (small_exponent2 (2 * a)))"
  by pat_completeness auto
termination
proof (relation "measure (\<lambda>a. nat \<lceil>1 / a\<rceil>)")
  show "wf (measure (\<lambda>a::rat. nat \<lceil>1 / a\<rceil>))" by simp
next
  fix a :: rat
  assume "\<not> (a \<le> 0 \<or> 1 \<le> a)"
  then have a: "0 < a" "a < 1" by auto
  then have "1 < 1 / a" by simp
  then have c: "2 \<le> \<lceil>1 / a\<rceil>" by linarith
  have "1 / (2 * a) = (1 / a) / 2" by simp
  also have "\<dots> \<le> of_int \<lceil>1 / a\<rceil> / 2" by (simp add: divide_right_mono)
  also have "\<dots> \<le> of_int (\<lceil>1 / a\<rceil> - 1)"
  proof -
    from c have "(2::rat) \<le> of_int \<lceil>1 / a\<rceil>" by linarith
    then show ?thesis unfolding of_int_diff of_int_1 by linarith
  qed
  finally have "\<lceil>1 / (2 * a)\<rceil> \<le> \<lceil>1 / a\<rceil> - 1" by (simp only: ceiling_le_iff)
  with c a show "(2 * a, a) \<in> measure (\<lambda>a. nat \<lceil>1 / a\<rceil>)" by simp
qed

declare small_exponent2.simps [simp del]

definition exponent2 :: "rat \<Rightarrow> int" where
  "exponent2 a =
     (if 1 \<le> a then int (bit_length \<lfloor>a\<rfloor>) - 1 else - int (small_exponent2 a))"

text \<open>The nearest integer, the even one of two equally near.\<close>

definition round_half_even :: "rat \<Rightarrow> int" where
  "round_half_even x =
     (let f = \<lfloor>x\<rfloor>; d = x - of_int f
      in if d < 1 / 2 then f else if 1 / 2 < d then f + 1 else if even f then f else f + 1)"

text \<open>
  The binary64 value nearest to a rational, with an unbounded exponent upwards:
  53 significant bits, and multiples of \<open>2 ^ -1074\<close> below \<open>2 ^ -1022\<close>.
\<close>

definition nearest64 :: "rat \<Rightarrow> rat" where
  "nearest64 r =
     (if r = 0 then 0
      else (let a = \<bar>r\<bar>;
                q = max (exponent2 a) (- 1022) - 52;
                m = round_half_even (a / pow2 q)
            in (if r < 0 then - 1 else 1) * of_int m * pow2 q))"

text \<open>The rounded result as a number: an infinity from \<open>2 ^ 1024\<close> on.\<close>

definition round64 :: "rat \<Rightarrow> number" where
  "round64 r =
     (let v = nearest64 r
      in if exponent2 \<bar>v\<bar> < 1024 then Finite v
         else if v < 0 then NegInfinity else Infinity)"

subsection \<open>Arithmetic\<close>

fun js_neg :: "number \<Rightarrow> number" where
  "js_neg (Finite a) = Finite (- a)"
| "js_neg Infinity = NegInfinity"
| "js_neg NegInfinity = Infinity"
| "js_neg NaN = NaN"

fun js_add :: "number \<Rightarrow> number \<Rightarrow> number" where
  "js_add NaN _ = NaN"
| "js_add _ NaN = NaN"
| "js_add (Finite a) (Finite b) = round64 (a + b)"
| "js_add Infinity NegInfinity = NaN"
| "js_add NegInfinity Infinity = NaN"
| "js_add Infinity _ = Infinity"
| "js_add _ Infinity = Infinity"
| "js_add NegInfinity _ = NegInfinity"
| "js_add _ NegInfinity = NegInfinity"

definition js_sub :: "number \<Rightarrow> number \<Rightarrow> number" where
  "js_sub a b = js_add a (js_neg b)"

text \<open>The sign of a number as \<open>-1\<close>, \<open>0\<close> or \<open>1\<close>; NaN has none.\<close>

fun js_sign :: "number \<Rightarrow> int option" where
  "js_sign (Finite a) = Some (if a < 0 then - 1 else if a = 0 then 0 else 1)"
| "js_sign Infinity = Some 1"
| "js_sign NegInfinity = Some (- 1)"
| "js_sign NaN = None"

definition signed_infinity :: "int \<Rightarrow> number" where
  "signed_infinity s = (if s = 0 then NaN else if s < 0 then NegInfinity else Infinity)"

fun js_mul :: "number \<Rightarrow> number \<Rightarrow> number" where
  "js_mul (Finite a) (Finite b) = round64 (a * b)"
| "js_mul x y =
     (case (js_sign x, js_sign y) of
        (Some s, Some t) \<Rightarrow> signed_infinity (s * t)
      | _ \<Rightarrow> NaN)"

text \<open>
  Division. A finite value divided by an infinity is a zero; a non-zero value
  divided by zero is an infinity, zero by zero is NaN (the calculator guards its
  only division by a variable, so the sign of that infinity is never observed).
\<close>

fun js_div :: "number \<Rightarrow> number \<Rightarrow> number" where
  "js_div NaN _ = NaN"
| "js_div _ NaN = NaN"
| "js_div (Finite a) (Finite b) =
     (if b = 0 then signed_infinity (if a < 0 then - 1 else if a = 0 then 0 else 1)
      else round64 (a / b))"
| "js_div (Finite a) _ = Finite 0"
| "js_div x (Finite b) =
     (case js_sign x of
        Some s \<Rightarrow> signed_infinity (s * (if b < 0 then - 1 else 1))
      | None \<Rightarrow> NaN)"
| "js_div _ _ = NaN"

definition js_abs :: "number \<Rightarrow> number" where
  "js_abs x = (case x of Finite a \<Rightarrow> Finite \<bar>a\<bar> | NegInfinity \<Rightarrow> Infinity | _ \<Rightarrow> x)"

text \<open>The comparisons \<open>>=\<close>, \<open>>\<close> and \<open><\<close> of a number with a finite value.\<close>

definition js_ge :: "number \<Rightarrow> rat \<Rightarrow> bool" where
  "js_ge x c = (case x of Finite a \<Rightarrow> c \<le> a | Infinity \<Rightarrow> True | _ \<Rightarrow> False)"

definition js_gt :: "number \<Rightarrow> rat \<Rightarrow> bool" where
  "js_gt x c = (case x of Finite a \<Rightarrow> c < a | Infinity \<Rightarrow> True | _ \<Rightarrow> False)"

definition js_lt :: "number \<Rightarrow> rat \<Rightarrow> bool" where
  "js_lt x c = (case x of Finite a \<Rightarrow> a < c | NegInfinity \<Rightarrow> True | _ \<Rightarrow> False)"

text \<open>\<open>x || 0\<close>: zero and NaN are falsy.\<close>

definition or_zero :: "number \<Rightarrow> number" where
  "or_zero x = (if x = Finite 0 \<or> x = NaN then Finite 0 else x)"

subsection \<open>Decimal digits\<close>

text \<open>
  Strings are lists of 8-bit characters. The code's strings are sequences of
  16-bit units; every character the calculator itself writes is below U+0100.
\<close>

definition digit_char :: "nat \<Rightarrow> char" where
  "digit_char d = ''0123456789'' ! (d mod 10)"

text \<open>The decimal digits of an integer that is not negative.\<close>

function digits :: "int \<Rightarrow> string" where
  "digits n =
     (if n < 10 then [digit_char (nat n)]
      else digits (n div 10) @ [digit_char (nat (n mod 10))])"
  by pat_completeness auto
termination
  by (relation "measure nat") auto

declare digits.simps [simp del]

definition is_digit :: "char \<Rightarrow> bool" where
  "is_digit c = (c \<in> set ''0123456789'')"

definition digit_val :: "char \<Rightarrow> int" where
  "digit_val c = of_char c - 48"

text \<open>The value of a string of decimal digits, most significant first.\<close>

definition digits_val :: "string \<Rightarrow> int" where
  "digits_val cs = foldl (\<lambda>acc c. 10 * acc + digit_val c) 0 cs"

definition pow10 :: "int \<Rightarrow> rat" where
  "pow10 e = (if 0 \<le> e then 10 ^ nat e else 1 / 10 ^ nat (- e))"

subsection \<open>\<open>parseFloat\<close>\<close>

text \<open>
  \<open>parseFloat\<close> skips leading white space and reads the longest prefix that is
  a decimal literal: an optional sign, then \<open>Infinity\<close>, or digits with an
  optional fraction and an optional exponent. Without such a prefix the result
  is NaN. Whatever follows the prefix is ignored. The value of the literal is
  rounded to binary64.
\<close>

definition is_space :: "char \<Rightarrow> bool" where
  "is_space c = (of_char c \<in> {9, 10, 11, 12, 13, 32, 160 :: nat})"

text \<open>The exponent part: \<open>e\<close> or \<open>E\<close>, an optional sign, at least one digit.\<close>

definition exponent_part :: "string \<Rightarrow> int" where
  "exponent_part s =
     (case s of
        [] \<Rightarrow> 0
      | c # r \<Rightarrow>
          if c = CHR ''e'' \<or> c = CHR ''E'' then
            (case r of
               [] \<Rightarrow> 0
             | d # r' \<Rightarrow>
                 if d = CHR ''-'' then - digits_val (takeWhile is_digit r')
                 else if d = CHR ''+'' then digits_val (takeWhile is_digit r')
                 else digits_val (takeWhile is_digit r))
          else 0)"

definition unsigned_literal :: "string \<Rightarrow> rat option" where
  "unsigned_literal s =
     (let ip = takeWhile is_digit s;
          r1 = dropWhile is_digit s;
          fp = (case r1 of [] \<Rightarrow> [] | c # r \<Rightarrow> if c = CHR ''.'' then takeWhile is_digit r else []);
          r2 = (case r1 of [] \<Rightarrow> [] | c # r \<Rightarrow> if c = CHR ''.'' then dropWhile is_digit r else r1)
      in if ip = [] \<and> fp = [] then None
         else Some (of_int (digits_val (ip @ fp)) * pow10 (exponent_part r2 - int (length fp))))"

definition parseFloat :: "string \<Rightarrow> number" where
  "parseFloat s =
     (let s1 = dropWhile is_space s;
          neg = (case s1 of [] \<Rightarrow> False | c # _ \<Rightarrow> c = CHR ''-'');
          s2 = (case s1 of [] \<Rightarrow> [] | c # r \<Rightarrow> if c = CHR ''-'' \<or> c = CHR ''+'' then r else s1)
      in if take 8 s2 = ''Infinity'' then (if neg then NegInfinity else Infinity)
         else (case unsigned_literal s2 of
                 None \<Rightarrow> NaN
               | Some v \<Rightarrow> round64 (if neg then - v else v)))"

subsection \<open>Rendering numbers\<close>

text \<open>
  The decimal exponent of a positive value: the \<open>e\<close> with
  \<open>10 ^ e \<le> a < 10 ^ (e + 1)\<close>. Below one, the value is scaled up until it
  reaches one.
\<close>

function small_exponent :: "rat \<Rightarrow> nat" where
  "small_exponent a = (if a \<le> 0 \<or> 1 \<le> a then 0 else Suc (small_exponent (10 * a)))"
  by pat_completeness auto
termination
proof (relation "measure (\<lambda>a. nat \<lceil>1 / a\<rceil>)")
  show "wf (measure (\<lambda>a::rat. nat \<lceil>1 / a\<rceil>))" by simp
next
  fix a :: rat
  assume "\<not> (a \<le> 0 \<or> 1 \<le> a)"
  then have a: "0 < a" "a < 1" by auto
  then have "1 < 1 / a" by simp
  then have c: "2 \<le> \<lceil>1 / a\<rceil>" by linarith
  have "1 / (10 * a) = (1 / a) / 10" by simp
  also have "\<dots> \<le> of_int \<lceil>1 / a\<rceil> / 10" by (simp add: divide_right_mono)
  also have "\<dots> \<le> of_int (\<lceil>1 / a\<rceil> - 1)"
  proof -
    from c have "(2::rat) \<le> of_int \<lceil>1 / a\<rceil>" by linarith
    then show ?thesis unfolding of_int_diff of_int_1 by linarith
  qed
  finally have "\<lceil>1 / (10 * a)\<rceil> \<le> \<lceil>1 / a\<rceil> - 1" by (simp only: ceiling_le_iff)
  with c a show "(10 * a, a) \<in> measure (\<lambda>a. nat \<lceil>1 / a\<rceil>)" by simp
qed

declare small_exponent.simps [simp del]

definition exponent10 :: "rat \<Rightarrow> int" where
  "exponent10 a =
     (if 1 \<le> a then int (length (digits \<lfloor>a\<rfloor>)) - 1 else - int (small_exponent a))"

text \<open>
  \<open>Number.prototype.toString\<close> writes the shortest decimal that reads back as
  the same binary64 value: digits \<open>s\<close>, \<open>k\<close> of them, and a position \<open>n\<close> of
  the decimal point with \<open>s \<times> 10 ^ (n - k)\<close> rounding to the value; among the
  shortest, the one nearest to the value, the even \<open>s\<close> of two equally near.

  For \<open>k\<close> digits the two decimals around a positive value \<open>x\<close> are tried.
\<close>

definition candidate :: "nat \<Rightarrow> rat \<Rightarrow> (int \<times> int) option" where
  "candidate k x =
     (let n = exponent10 x + 1;
          u = pow10 (n - int k);
          lo = \<lfloor>x / u\<rfloor>;
          hi = lo + 1;
          ok_lo = (nearest64 (of_int lo * u) = x);
          ok_hi = (nearest64 (of_int hi * u) = x);
          d_lo = x - of_int lo * u;
          d_hi = of_int hi * u - x
      in if ok_hi \<and> (\<not> ok_lo \<or> d_hi < d_lo \<or> (d_hi = d_lo \<and> even hi))
         then Some (if hi = 10 ^ k then (10 ^ (k - 1), n + 1) else (hi, n))
         else if ok_lo then Some (lo, n)
         else None)"

text \<open>
  The search from \<open>k\<close> digits upwards. Seventeen digits always suffice for a
  binary64 value; a value that is none is cut off after the last try.
\<close>

fun shortest_digits :: "nat \<Rightarrow> nat \<Rightarrow> rat \<Rightarrow> int \<times> int" where
  "shortest_digits 0 k x = (\<lfloor>x / pow10 (exponent10 x + 1 - int k)\<rfloor>, exponent10 x + 1)"
| "shortest_digits (Suc fuel) k x =
     (case candidate k x of
        Some sn \<Rightarrow> sn
      | None \<Rightarrow> shortest_digits fuel (Suc k) x)"

text \<open>
  The notation: an integer with zeros appended, a decimal with the point inside
  the digits, a decimal with zeros after \<open>0.\<close>, and otherwise the exponential
  notation.
\<close>

definition layout :: "string \<Rightarrow> int \<Rightarrow> string" where
  "layout ds n =
     (let k = int (length ds)
      in if k \<le> n \<and> n \<le> 21 then ds @ replicate (nat (n - k)) CHR ''0''
         else if 0 < n \<and> n \<le> 21 then take (nat n) ds @ ''.'' @ drop (nat n) ds
         else if - 6 < n \<and> n \<le> 0 then ''0.'' @ replicate (nat (- n)) CHR ''0'' @ ds
         else (if k = 1 then ds else take 1 ds @ ''.'' @ drop 1 ds)
              @ ''e'' @ (if n - 1 < 0 then ''-'' else ''+'') @ digits \<bar>n - 1\<bar>)"

definition toString :: "number \<Rightarrow> string" where
  "toString x =
     (case x of
        NaN \<Rightarrow> ''NaN''
      | Infinity \<Rightarrow> ''Infinity''
      | NegInfinity \<Rightarrow> ''-Infinity''
      | Finite r \<Rightarrow>
          if r = 0 then ''0''
          else (case shortest_digits 17 1 \<bar>r\<bar> of
                  (s, n) \<Rightarrow> (if r < 0 then ''-'' else '''') @ layout (digits s) n))"

text \<open>
  \<open>parseFloat(num.toFixed(12))\<close> for a finite \<open>num\<close>: \<open>toFixed(12)\<close> writes the
  multiple of \<open>1e-12\<close> nearest to the value of \<open>num\<close> (of two equally near, the
  one larger in magnitude), and \<open>parseFloat\<close> reads it back, rounded to
  binary64. From \<open>1e21\<close> on, \<open>toFixed\<close> writes the number as \<open>toString\<close> does
  and \<open>parseFloat\<close> reads the number itself back.
\<close>

definition toFixed12_parsed :: "rat \<Rightarrow> rat" where
  "toFixed12_parsed r =
     (if 10 ^ 21 \<le> \<bar>r\<bar> then r
      else nearest64
             ((if r < 0 then - 1 else 1) * of_int \<lfloor>\<bar>r\<bar> * 10 ^ 12 + 1 / 2\<rfloor> / 10 ^ 12))"

text \<open>
  \<open>num.toExponential(6)\<close> for a finite \<open>num\<close>: one digit, a point, six digits,
  \<open>e\<close>, the sign of the exponent and the exponent. The seven digits are those
  of the integer \<open>n\<close> nearest to \<open>|num| / 10 ^ (e - 6)\<close>, the larger of two
  equally near; when rounding reaches \<open>10 ^ 7\<close> the exponent moves up by one.
\<close>

definition toExponential6 :: "rat \<Rightarrow> string" where
  "toExponential6 r =
     (let a = \<bar>r\<bar>;
          e0 = (if a = 0 then 0 else exponent10 a);
          n0 = \<lfloor>a / pow10 (e0 - 6) + 1 / 2\<rfloor>;
          e = (if n0 = 10 ^ 7 then e0 + 1 else e0);
          n = (if n0 = 10 ^ 7 then 10 ^ 6 else n0);
          ds = (if a = 0 then ''0000000'' else digits n)
      in (if r < 0 then ''-'' else '''') @ take 1 ds @ ''.'' @ drop 1 ds
         @ ''e'' @ (if e < 0 then ''-'' else ''+'') @ digits \<bar>e\<bar>)"



subsection \<open>The data model\<close>

datatype Operator = Add | Subtract | Multiply | Divide

text \<open>
  The operators are the strings \<open>+\<close>, \<open>-\<close>, the multiplication sign (U+00D7)
  and the division sign (U+00F7); a template literal inserts that one character.
\<close>

definition operator_text :: "Operator \<Rightarrow> string" where
  "operator_text op =
     (case op of
        Add \<Rightarrow> ''+''
      | Subtract \<Rightarrow> ''-''
      | Multiply \<Rightarrow> [char_of (215 :: nat)]
      | Divide \<Rightarrow> [char_of (247 :: nat)])"

record HistoryItem =
  item_id :: string
  expression :: string
  result :: string
  ts :: int

record State =
  display :: string
  firstOperand :: "number option"
  operator :: "Operator option"
  waitingForSecond :: bool
  memory :: "number option"
  history :: "HistoryItem list"

datatype Action =
    Digit string
  | Dot
  | Clear
  | Delete
  | ToggleSign
  | Percent
  | Operator Operator
  | Equals
  | MemoryClear
  | MemoryRecall
  | MemoryAdd
  | MemorySubtract
  | HistoryClear
  | SetDisplay string

definition initialState :: State where
  "initialState =
     \<lparr>display = ''0'', firstOperand = None, operator = None, waitingForSecond = False,
      memory = None, history = []\<rparr>"

text \<open>
  What \<open>pushHistory\<close> reads from its environment: the two calls of \<open>Date.now()\<close>
  and the text of \<open>Math.random().toString(36)\<close>.
\<close>

record Env =
  now_id :: int
  random36 :: string
  now_ts :: int

subsection \<open>The helpers\<close>

definition calculate :: "number \<Rightarrow> number \<Rightarrow> Operator \<Rightarrow> number" where
  "calculate a b op =
     (case op of
        Add \<Rightarrow> js_add a b
      | Subtract \<Rightarrow> js_sub a b
      | Multiply \<Rightarrow> js_mul a b
      | Divide \<Rightarrow> if b = Finite 0 then Infinity else js_div a b)"

text \<open>The literal \<open>1e-6\<close> of the source is the binary64 value nearest to it.\<close>

definition formatResult :: "number \<Rightarrow> string" where
  "formatResult num =
     (case num of
        Finite r \<Rightarrow>
          (let trimmed = toFixed12_parsed r
           in if js_ge (js_abs (Finite trimmed)) (10 ^ 12)
                 \<or> (js_gt (js_abs (Finite trimmed)) 0 \<and> js_lt (js_abs (Finite trimmed)) (nearest64 (1 / 10 ^ 6)))
              then toExponential6 trimmed
              else toString (Finite trimmed))
      | _ \<Rightarrow> ''Error'')"

definition parseDisplay :: "string \<Rightarrow> number" where
  "parseDisplay disp = (let n = parseFloat disp in if isFinite n then n else Finite 0)"

definition pushHistory :: "Env \<Rightarrow> HistoryItem list \<Rightarrow> string \<Rightarrow> string \<Rightarrow> nat \<Rightarrow> HistoryItem list" where
  "pushHistory env hist expr res limit =
     (let item = \<lparr>item_id = toString (Finite (of_int (now_id env))) @ ''-'' @ drop 2 (random36 env),
                  expression = expr, result = res, ts = now_ts env\<rparr>;
          next = item # hist
      in take limit next)"

subsection \<open>The reducer\<close>

text \<open>The expression text of a history entry, as \<open>operator\<close> and \<open>equals\<close> build it.\<close>

definition expr_text :: "number \<Rightarrow> Operator \<Rightarrow> number \<Rightarrow> string" where
  "expr_text a op b = formatResult a @ '' '' @ operator_text op @ '' '' @ formatResult b @ '' =''"

fun reducer :: "Env \<Rightarrow> State \<Rightarrow> Action \<Rightarrow> State" where
  "reducer env state (Digit d) =
     (if waitingForSecond state
      then state\<lparr>display := (if d = ''0'' then ''0'' else d), waitingForSecond := False\<rparr>
      else if display state = ''0'' then state\<lparr>display := d\<rparr>
      else if display state = ''-0'' then state\<lparr>display := ''-'' @ d\<rparr>
      else state\<lparr>display := display state @ d\<rparr>)"
| "reducer env state Dot =
     (if waitingForSecond state then state\<lparr>display := ''0.'', waitingForSecond := False\<rparr>
      else if CHR ''.'' \<in> set (display state) then state
      else state\<lparr>display := display state @ ''.''\<rparr>)"
| "reducer env state Clear =
     initialState\<lparr>history := history state, memory := memory state\<rparr>"
| "reducer env state Delete =
     (if waitingForSecond state then state
      else (let next = butlast (display state)
            in state\<lparr>display := (if next = '''' \<or> next = ''-'' \<or> next = ''-0'' then ''0'' else next)\<rparr>))"
| "reducer env state ToggleSign =
     (if display state = ''0'' then state
      else if take 1 (display state) = ''-'' then state\<lparr>display := drop 1 (display state)\<rparr>
      else state\<lparr>display := ''-'' @ display state\<rparr>)"
| "reducer env state Percent =
     (let current = or_zero (parseFloat (display state))
      in case (firstOperand state, operator state) of
           (Some first, Some _) \<Rightarrow>
             if \<not> waitingForSecond state
             then state\<lparr>display := formatResult (js_div (js_mul first current) (Finite 100))\<rparr>
             else state\<lparr>display := formatResult (js_div current (Finite 100))\<rparr>
         | _ \<Rightarrow> state\<lparr>display := formatResult (js_div current (Finite 100))\<rparr>)"
| "reducer env state (Operator nextOperator) =
     (let inputValue = parseDisplay (display state)
      in if operator state \<noteq> None \<and> waitingForSecond state
         then state\<lparr>operator := Some nextOperator\<rparr>
         else (case firstOperand state of
                 None \<Rightarrow>
                   state\<lparr>firstOperand := Some inputValue, operator := Some nextOperator,
                         waitingForSecond := True\<rparr>
               | Some first \<Rightarrow>
                   (case operator state of
                      Some op \<Rightarrow>
                        (let result = calculate first inputValue op;
                             formatted = formatResult result;
                             expr = expr_text first op inputValue
                         in \<lparr>display = formatted, firstOperand = Some result,
                             operator = Some nextOperator, waitingForSecond = True,
                             memory = memory state,
                             history = pushHistory env (history state) expr formatted 25\<rparr>)
                    | None \<Rightarrow> state)))"
| "reducer env state Equals =
     (case (operator state, firstOperand state) of
        (Some op, Some first) \<Rightarrow>
          if waitingForSecond state then state
          else (let inputValue = parseDisplay (display state);
                    result = calculate first inputValue op;
                    formatted = formatResult result;
                    expr = expr_text first op inputValue
                in \<lparr>display = formatted, firstOperand = None, operator = None,
                    waitingForSecond = False, memory = memory state,
                    history = pushHistory env (history state) expr formatted 25\<rparr>)
      | _ \<Rightarrow> state)"
| "reducer env state MemoryClear = state\<lparr>memory := None\<rparr>"
| "reducer env state MemoryRecall =
     (case memory state of
        None \<Rightarrow> state
      | Some m \<Rightarrow> state\<lparr>display := formatResult m, waitingForSecond := False\<rparr>)"
| "reducer env state MemoryAdd =
     (let current = parseDisplay (display state);
          next = js_add (case memory state of None \<Rightarrow> Finite 0 | Some m \<Rightarrow> m) current
      in state\<lparr>memory := Some next\<rparr>)"
| "reducer env state MemorySubtract =
     (let current = parseDisplay (display state);
          next = js_sub (case memory state of None \<Rightarrow> Finite 0 | Some m \<Rightarrow> m) current
      in state\<lparr>memory := Some next\<rparr>)"
| "reducer env state HistoryClear = state\<lparr>history := []\<rparr>"
| "reducer env state (SetDisplay v) =
     state\<lparr>display := v, firstOperand := None, operator := None, waitingForSecond := False\<rparr>"

text \<open>
  A run of the component: \<open>useReducer\<close> starts from \<open>initialState\<close> and applies
  the reducer to each dispatched action, each with its own reading of the
  environment.
\<close>

fun dispatch_all :: "State \<Rightarrow> (Env \<times> Action) list \<Rightarrow> State" where
  "dispatch_all state [] = state"
| "dispatch_all state ((env, action) # rest) = dispatch_all (reducer env state action) rest"

definition reachable :: "State \<Rightarrow> bool" where
  "reachable state = (\<exists>events. state = dispatch_all initialState events)"

subsection \<open>Notions used to state the properties\<close>

text \<open>The number of decimal points in a display text.\<close>

definition decimal_points :: "string \<Rightarrow> nat" where
  "decimal_points s = count_list s CHR ''.''"

text \<open>
  The payloads the component dispatches: a \<open>digit\<close> payload is a key without
  a decimal point (the buttons send one decimal digit), and a \<open>setDisplay\<close>
  payload has at most one decimal point (the history panel sends the \<open>result\<close>
  of a history entry).
\<close>

fun payload_ok :: "Action \<Rightarrow> bool" where
  "payload_ok (Digit d) = (CHR ''.'' \<notin> set d)"
| "payload_ok (SetDisplay v) = (decimal_points v \<le> 1)"
| "payload_ok _ = True"

definition display_ok :: "State \<Rightarrow> bool" where
  "display_ok s =
     (decimal_points (display s) \<le> 1
      \<and> (\<forall>h \<in> set (history s). decimal_points (result h) \<le> 1))"

definition operand_has_operator :: "State \<Rightarrow> bool" where
  "operand_has_operator s = (firstOperand s \<noteq> None \<longrightarrow> operator s \<noteq> None)"

text \<open>A fixed reading of the environment, and the runs used as concrete inputs.\<close>

definition env0 :: Env where
  "env0 = \<lparr>now_id = 1700000000000, random36 = ''0.k3x9q2'', now_ts = 1700000000000\<rparr>"

definition press :: "Action list \<Rightarrow> (Env \<times> Action) list" where
  "press actions = map (Pair env0) actions"

definition division_by_zero :: "(Env \<times> Action) list" where
  "division_by_zero = press [Digit ''6'', Operator Divide, Digit ''0'', Equals]"

definition chained_division_by_zero :: "(Env \<times> Action) list" where
  "chained_division_by_zero = press [Digit ''6'', Operator Divide, Digit ''0'', Operator Add]"

definition two_points_attempt :: "(Env \<times> Action) list" where
  "two_points_attempt =
     press [Digit ''1'', Dot, Digit ''5'', Dot, Operator Divide, Digit ''4'', Dot, Dot, Equals, Dot]"

definition full_history :: "HistoryItem list" where
  "full_history =
     map (\<lambda>n. \<lparr>item_id = ''id'', expression = ''1 + 1 ='', result = ''2'', ts = n\<rparr>) [1..25]"

definition decimal_operand :: "(Env \<times> Action) list" where
  "decimal_operand =
     press [Digit ''5'', Operator Add, Digit ''2'', Dot, Digit ''5'', Digit ''0'']"

definition percent_of_7183 :: "(Env \<times> Action) list" where
  "percent_of_7183 =
     press [Digit ''7'', Digit ''1'', Digit ''8'', Digit ''3'', Operator Add, Digit ''5'', Digit ''5'']"

section \<open>Auxiliary facts\<close>

lemma digit_char_not_point: "digit_char d \<noteq> CHR ''.''"
proof -
  have "digit_char d \<in> set ''0123456789''"
    unfolding digit_char_def by (rule nth_mem) simp
  then show ?thesis by auto
qed

lemma digits_no_point: "CHR ''.'' \<notin> set (digits n)"
proof (induction n rule: digits.induct)
  case (1 n)
  show ?case
  proof (cases "n < 10")
    case True
    then show ?thesis using digit_char_not_point [of "nat n"] by (simp add: digits.simps)
  next
    case False
    then show ?thesis
      using 1 digit_char_not_point [of "nat (n mod 10)"] by (subst digits.simps) simp
  qed
qed

lemma decimal_points_0: "CHR ''.'' \<notin> set s \<Longrightarrow> decimal_points s = 0"
  by (simp add: decimal_points_def)

lemma decimal_points_append: "decimal_points (s @ t) = decimal_points s + decimal_points t"
  by (simp add: decimal_points_def)

lemma decimal_points_Cons: "decimal_points (c # s) = (if c = CHR ''.'' then 1 else 0) + decimal_points s"
  by (simp add: decimal_points_def)

lemma decimal_points_Nil: "decimal_points [] = 0"
  by (simp add: decimal_points_def)

lemma decimal_points_butlast: "decimal_points (butlast s) \<le> decimal_points s"
  by (induction s) (auto simp: decimal_points_def)

lemma decimal_points_drop: "decimal_points (drop n s) \<le> decimal_points s"
proof -
  have "decimal_points s = decimal_points (take n s) + decimal_points (drop n s)"
    by (metis append_take_drop_id decimal_points_append)
  then show ?thesis by simp
qed

lemma layout_points:
  assumes "CHR ''.'' \<notin> set ds"
  shows "decimal_points (layout ds n) \<le> 1"
proof -
  have a: "decimal_points (take m ds) = 0" "decimal_points (drop m ds) = 0" for m
    using assms by (auto intro!: decimal_points_0 dest: in_set_takeD in_set_dropD)
  have z: "decimal_points (replicate m CHR ''0'') = 0" for m
    by (simp add: decimal_points_0)
  have d: "decimal_points ds = 0"
    using assms by (rule decimal_points_0)
  show ?thesis
    unfolding layout_def Let_def
    by (simp add: decimal_points_append decimal_points_Cons decimal_points_Nil
        decimal_points_0 digits_no_point a z d)
qed

lemma toString_points: "decimal_points (toString x) \<le> 1"
proof (cases x)
  case (Finite r)
  show ?thesis
  proof (cases "shortest_digits 17 1 \<bar>r\<bar>")
    case (Pair s n)
    with Finite layout_points [OF digits_no_point, of s n] show ?thesis
      by (simp add: toString_def decimal_points_append decimal_points_Cons decimal_points_Nil)
  qed
qed (simp_all add: toString_def decimal_points_def)

lemma toExponential6_points: "decimal_points (toExponential6 r) = 1"
proof -
  have a: "decimal_points (take (Suc 0) ds) = 0" "decimal_points (drop (Suc 0) ds) = 0"
    if "CHR ''.'' \<notin> set ds" for ds
    using that by (auto intro!: decimal_points_0 dest: in_set_takeD in_set_dropD)
  have b: "CHR ''.'' \<notin> set ''0000000''" by simp
  show ?thesis
    unfolding toExponential6_def Let_def
    by (simp add: decimal_points_append decimal_points_Cons decimal_points_Nil
        decimal_points_0 digits_no_point a del: take_Suc_Cons drop_Suc_Cons)
qed

lemma formatResult_points: "decimal_points (formatResult x) \<le> 1"
proof (cases x)
  case (Finite r)
  then show ?thesis
    using toString_points [of "Finite (toFixed12_parsed r)"] toExponential6_points [of "toFixed12_parsed r"]
    by (simp add: formatResult_def Let_def)
qed (simp_all add: formatResult_def decimal_points_def)


lemma dispatch_all_invariant:
  assumes "P s" and "\<And>env s a. P s \<Longrightarrow> P (reducer env s a)"
  shows "P (dispatch_all s events)"
  using assms(1)
proof (induction events arbitrary: s)
  case Nil
  then show ?case by simp
next
  case (Cons ev events)
  obtain env a where ev: "ev = (env, a)" by (cases ev)
  from Cons.prems have "P (reducer env s a)" by (rule assms(2))
  then show ?case unfolding ev by (simp add: Cons.IH)
qed

lemma pushHistory_eq:
  "pushHistory env h e r n =
     take n (\<lparr>item_id = toString (Finite (of_int (now_id env))) @ ''-'' @ drop 2 (random36 env),
              expression = e, result = r, ts = now_ts env\<rparr> # h)"
  by (simp add: pushHistory_def)

lemma pushHistory_length: "length (pushHistory env h e r n) \<le> n"
  by (simp add: pushHistory_eq)

lemma pushHistory_member:
  "x \<in> set (pushHistory env h e r n) \<Longrightarrow> result x = r \<or> x \<in> set h"
  by (auto simp: pushHistory_eq dest!: in_set_takeD)

lemma reducer_history_length:
  "length (history s) \<le> 25 \<Longrightarrow> length (history (reducer env s a)) \<le> 25"
  by (cases a)
    (auto simp: Let_def initialState_def pushHistory_length split: option.splits)

lemma reducer_operand_has_operator:
  "operand_has_operator s \<Longrightarrow> operand_has_operator (reducer env s a)"
  by (cases a)
    (auto simp: operand_has_operator_def Let_def initialState_def split: option.splits)

lemma reducer_display_ok:
  assumes "payload_ok a" and "display_ok s"
  shows "display_ok (reducer env s a)"
proof -
  note pts = decimal_points_append decimal_points_Cons decimal_points_Nil
  have d: "decimal_points (display s) \<le> 1"
    and h: "\<And>x. x \<in> set (history s) \<Longrightarrow> decimal_points (result x) \<le> 1"
    using assms(2) by (auto simp: display_ok_def)
  have fr: "decimal_points (formatResult v) \<le> Suc 0" for v
    using formatResult_points [of v] by simp
  have push: "decimal_points (result x) \<le> 1"
    if "x \<in> set (pushHistory env (history s) e (formatResult v) n)" for x e v n
    using pushHistory_member [OF that] h formatResult_points [of v] by auto
  show ?thesis
  proof (cases a)
    case (Digit dg)
    with assms(1) have "decimal_points dg = 0" by (simp add: decimal_points_0)
    with Digit d h show ?thesis by (auto simp: display_ok_def pts)
  next
    case Dot
    with d h show ?thesis by (auto simp: display_ok_def pts decimal_points_0)
  next
    case Clear
    with h show ?thesis by (auto simp: display_ok_def pts initialState_def)
  next
    case Delete
    with d h decimal_points_butlast [of "display s"] show ?thesis
      by (auto simp: display_ok_def pts Let_def)
  next
    case ToggleSign
    with d h decimal_points_drop [of 1 "display s"] show ?thesis
      by (auto simp: display_ok_def pts)
  next
    case Percent
    with h show ?thesis
      by (auto simp: display_ok_def Let_def fr split: option.splits)
  next
    case (Operator nextOperator)
    with d h push show ?thesis
      by (auto simp: display_ok_def Let_def fr split: option.splits)
  next
    case Equals
    with d h push show ?thesis
      by (auto simp: display_ok_def Let_def fr split: option.splits)
  next
    case MemoryRecall
    with d h show ?thesis
      by (auto simp: display_ok_def fr split: option.splits)
  next
    case (SetDisplay v)
    with assms(1) h show ?thesis by (auto simp: display_ok_def)
  qed (use d h in \<open>auto simp: display_ok_def Let_def\<close>)
qed

lemma dispatch_all_display_ok:
  "display_ok s \<Longrightarrow> list_all (\<lambda>ev. payload_ok (snd ev)) events
     \<Longrightarrow> display_ok (dispatch_all s events)"
proof (induction events arbitrary: s)
  case Nil
  then show ?case by simp
next
  case (Cons ev events)
  obtain env a where ev: "ev = (env, a)" by (cases ev)
  with Cons.prems have "display_ok (reducer env s a)"
    by (simp add: reducer_display_ok)
  with Cons.prems show ?case unfolding ev by (simp add: Cons.IH)
qed

text \<open>The values and renderings the concrete runs below go through.\<close>

lemma parseDisplay_values:
  "parseDisplay ''1'' = Finite 1"
  "parseDisplay ''2'' = Finite 2"
  "parseDisplay ''3'' = Finite 3"
  "parseDisplay ''4'' = Finite 4"
  "parseDisplay ''5'' = Finite 5"
  "parseDisplay ''10'' = Finite 10"
  "parseDisplay ''20'' = Finite 20"
  "parseDisplay ''200'' = Finite 200"
  by code_simp+

lemma parseFloat_values:
  "parseFloat ''10'' = Finite 10"
  by code_simp

lemma formatResult_values:
  "formatResult (Finite 2) = ''2''"
  "formatResult (Finite 3) = ''3''"
  "formatResult (Finite 5) = ''5''"
  "formatResult (Finite 6) = ''6''"
  "formatResult (Finite 8) = ''8''"
  "formatResult (Finite 20) = ''20''"
  "formatResult (Finite 200) = ''200''"
  "formatResult (Finite 220) = ''220''"
  by code_simp+

lemma round64_values:
  "round64 2 = Finite 2"
  "round64 4 = Finite 4"
  "round64 5 = Finite 5"
  "round64 6 = Finite 6"
  "round64 8 = Finite 8"
  "round64 20 = Finite 20"
  "round64 220 = Finite 220"
  "round64 2000 = Finite 2000"
  by code_simp+

lemmas run_simps =
  initialState_def Let_def pushHistory_eq expr_text_def operator_text_def calculate_def
  or_zero_def js_sub_def parseDisplay_values parseFloat_values formatResult_values
  round64_values

section \<open>The claims\<close>

subsection \<open>C1: digit entry after an error\<close>

text \<open>
  C1, as stated, says that in every reachable state whose display is \<open>Error\<close>
  a digit starts a fresh number, in particular after \<open>Equals\<close> on a division by
  zero. The run \<open>6 \<div> 0 =\<close> shows \<open>Error\<close>, and the digit \<open>5\<close> is then
  appended to that text: \<open>equals\<close> leaves \<open>waitingForSecond\<close> false, and the
  \<open>digit\<close> case appends to every display other than \<open>0\<close> and \<open>-0\<close>.
\<close>

theorem digit_after_equals_error_counterexample:
  "display (dispatch_all initialState division_by_zero) = ''Error''
   \<and> display (reducer env0 (dispatch_all initialState division_by_zero) (Digit ''5'')) = ''Error5''"
  by code_simp

text \<open>
  C1 (amended): in every state whose display is \<open>Error\<close> and in which
  \<open>waitingForSecond\<close> is set, as after an \<open>Operator\<close> that computed a division by
  zero, \<open>Digit d\<close> makes the display \<open>d\<close>, clears the flag and changes no other
  field.
\<close>

theorem digit_after_error_while_waiting:
  "display s = ''Error'' \<Longrightarrow> waitingForSecond s \<Longrightarrow>
     reducer env s (Digit d) = s\<lparr>display := d, waitingForSecond := False\<rparr>"
  by simp

theorem digit_after_error_while_waiting_witness:
  "display (dispatch_all initialState chained_division_by_zero) = ''Error''
   \<and> waitingForSecond (dispatch_all initialState chained_division_by_zero)
   \<and> display (reducer env0 (dispatch_all initialState chained_division_by_zero) (Digit ''5'')) = ''5''"
proof -
  let ?s = "dispatch_all initialState chained_division_by_zero"
  have d: "display ?s = ''Error''" by code_simp
  have w: "waitingForSecond ?s" by code_simp
  have "reducer env0 ?s (Digit ''5'') = ?s\<lparr>display := ''5'', waitingForSecond := False\<rparr>"
    using d w by (rule digit_after_error_while_waiting)
  then show ?thesis using d w by simp
qed

subsection \<open>C2: the shape of the display\<close>

text \<open>
  C2, as stated, says that the display of every reachable state is a numeric
  literal or exactly \<open>Error\<close>. After \<open>6 \<div> 0 = 5\<close> the display is \<open>Error5\<close>,
  which is not \<open>Error\<close> and of which \<open>parseFloat\<close> reads no number at all.
\<close>

theorem display_not_numeric_counterexample:
  "display (dispatch_all initialState (division_by_zero @ press [Digit ''5''])) = ''Error5''
   \<and> parseFloat ''Error5'' = NaN \<and> ''Error5'' \<noteq> ''Error''"
  by code_simp

text \<open>
  C2 (amended): in every state reached from the initial state by actions whose
  \<open>digit\<close> payloads contain no decimal point and whose \<open>setDisplay\<close> payloads
  contain at most one, the display contains at most one decimal point, and so
  does the result of every history entry (what the history panel sends with
  \<open>setDisplay\<close>).
\<close>

theorem display_at_most_one_point:
  assumes "list_all (\<lambda>ev. payload_ok (snd ev)) events"
  shows "decimal_points (display (dispatch_all initialState events)) \<le> 1
         \<and> list_all (\<lambda>h. decimal_points (result h) \<le> 1)
              (history (dispatch_all initialState events))"
proof -
  have "display_ok initialState"
    by (simp add: display_ok_def initialState_def decimal_points_def)
  then have "display_ok (dispatch_all initialState events)"
    using assms by (rule dispatch_all_display_ok)
  then show ?thesis by (simp add: display_ok_def list_all_iff)
qed

theorem display_at_most_one_point_witness:
  "list_all (\<lambda>ev. payload_ok (snd ev)) two_points_attempt
   \<and> display (dispatch_all initialState two_points_attempt) = ''0.375''
   \<and> decimal_points (display (dispatch_all initialState two_points_attempt)) \<le> 1"
proof -
  have h: "list_all (\<lambda>ev. payload_ok (snd ev)) two_points_attempt" by code_simp
  have v: "display (dispatch_all initialState two_points_attempt) = ''0.375''" by code_simp
  show ?thesis using h v display_at_most_one_point [OF h] by simp
qed

subsection \<open>C3: operator chaining\<close>

text \<open>
  C3, as stated, puts the display into the expression of the history entry.
  The code puts the parsed display there, rendered by \<open>formatResult\<close>: after the
  keys \<open>5 + 2 . 5 0\<close> the display is \<open>2.50\<close>, and the next operator pushes
  the expression \<open>5 + 2.5 =\<close>.
\<close>

theorem expression_not_display_text_counterexample:
  "display (dispatch_all initialState decimal_operand) = ''2.50''
   \<and> firstOperand (dispatch_all initialState decimal_operand) = Some (Finite 5)
   \<and> operator (dispatch_all initialState decimal_operand) = Some Add
   \<and> \<not> waitingForSecond (dispatch_all initialState decimal_operand)
   \<and> map expression
        (history (reducer env0 (dispatch_all initialState decimal_operand) (Operator Subtract)))
      = [''5 + 2.5 ='']"
  by code_simp

text \<open>
  C3 (amended): with a first operand and an operator pending and a second
  operand entered, \<open>Operator newOp\<close> computes \<open>calculate\<close> of the first operand,
  the parsed display and the pending operator, pushes a history entry whose
  expression is the formatted first operand, the operator and the formatted
  value of the parsed display, followed by \<open>=\<close>, with the formatted result,
  and continues with the result as first operand, \<open>newOp\<close> pending and
  \<open>waitingForSecond\<close> set. While waiting for the second operand with an operator
  pending, only the operator is replaced. In the run \<open>5 + 3 - 2 =\<close> the entry
  \<open>5 + 3 =\<close> with result \<open>8\<close> is pushed at the second operator, and the final
  display is \<open>6\<close>.
\<close>

theorem operator_chaining:
  "(firstOperand s = Some a \<and> operator s = Some op \<and> \<not> waitingForSecond s \<longrightarrow>
      reducer env s (Operator newOp) =
        \<lparr>display = formatResult (calculate a (parseDisplay (display s)) op),
         firstOperand = Some (calculate a (parseDisplay (display s)) op),
         operator = Some newOp,
         waitingForSecond = True,
         memory = memory s,
         history =
           take 25
             (\<lparr>item_id = toString (Finite (of_int (now_id env))) @ ''-'' @ drop 2 (random36 env),
               expression =
                 formatResult a @ '' '' @ operator_text op @ '' ''
                 @ formatResult (parseDisplay (display s)) @ '' ='',
               result = formatResult (calculate a (parseDisplay (display s)) op),
               ts = now_ts env\<rparr>
              # history s)\<rparr>)
   \<and> (operator s \<noteq> None \<and> waitingForSecond s \<longrightarrow>
        reducer env s (Operator newOp) = s\<lparr>operator := Some newOp\<rparr>)
   \<and> map (\<lambda>h. (expression h, result h))
        (history (dispatch_all initialState
           [(e1, Digit ''5''), (e2, Operator Add), (e3, Digit ''3''), (e4, Operator Subtract)]))
      = [(''5 + 3 ='', ''8'')]
   \<and> map (\<lambda>h. (expression h, result h))
        (history (dispatch_all initialState
           [(e1, Digit ''5''), (e2, Operator Add), (e3, Digit ''3''), (e4, Operator Subtract),
            (e5, Digit ''2''), (e6, Equals)]))
      = [(''8 - 2 ='', ''6''), (''5 + 3 ='', ''8'')]
   \<and> display (dispatch_all initialState
        [(e1, Digit ''5''), (e2, Operator Add), (e3, Digit ''3''), (e4, Operator Subtract),
         (e5, Digit ''2''), (e6, Equals)])
      = ''6''"
proof (intro conjI impI)
  assume "firstOperand s = Some a \<and> operator s = Some op \<and> \<not> waitingForSecond s"
  then show "reducer env s (Operator newOp) =
        \<lparr>display = formatResult (calculate a (parseDisplay (display s)) op),
         firstOperand = Some (calculate a (parseDisplay (display s)) op),
         operator = Some newOp,
         waitingForSecond = True,
         memory = memory s,
         history =
           take 25
             (\<lparr>item_id = toString (Finite (of_int (now_id env))) @ ''-'' @ drop 2 (random36 env),
               expression =
                 formatResult a @ '' '' @ operator_text op @ '' ''
                 @ formatResult (parseDisplay (display s)) @ '' ='',
               result = formatResult (calculate a (parseDisplay (display s)) op),
               ts = now_ts env\<rparr>
              # history s)\<rparr>"
    by (simp add: Let_def pushHistory_eq expr_text_def)
next
  assume "operator s \<noteq> None \<and> waitingForSecond s"
  then show "reducer env s (Operator newOp) = s\<lparr>operator := Some newOp\<rparr>"
    by (simp add: Let_def)
next
  show "map (\<lambda>h. (expression h, result h))
        (history (dispatch_all initialState
           [(e1, Digit ''5''), (e2, Operator Add), (e3, Digit ''3''), (e4, Operator Subtract)]))
      = [(''5 + 3 ='', ''8'')]"
    by (simp add: run_simps)
next
  show "map (\<lambda>h. (expression h, result h))
        (history (dispatch_all initialState
           [(e1, Digit ''5''), (e2, Operator Add), (e3, Digit ''3''), (e4, Operator Subtract),
            (e5, Digit ''2''), (e6, Equals)]))
      = [(''8 - 2 ='', ''6''), (''5 + 3 ='', ''8'')]"
    by (simp add: run_simps)
next
  show "display (dispatch_all initialState
        [(e1, Digit ''5''), (e2, Operator Add), (e3, Digit ''3''), (e4, Operator Subtract),
         (e5, Digit ''2''), (e6, Equals)])
      = ''6''"
    by (simp add: run_simps)
qed

theorem operator_chaining_witness:
  "firstOperand (dispatch_all initialState (press [Digit ''5'', Operator Add, Digit ''3'']))
     = Some (Finite 5)
   \<and> operator (dispatch_all initialState (press [Digit ''5'', Operator Add, Digit ''3'']))
     = Some Add
   \<and> \<not> waitingForSecond (dispatch_all initialState (press [Digit ''5'', Operator Add, Digit ''3'']))
   \<and> display (reducer env0
        (dispatch_all initialState (press [Digit ''5'', Operator Add, Digit ''3'']))
        (Operator Subtract)) = ''8''
   \<and> waitingForSecond (dispatch_all initialState (press [Digit ''5'', Operator Add]))
   \<and> operator (reducer env0 (dispatch_all initialState (press [Digit ''5'', Operator Add]))
        (Operator Multiply)) = Some Multiply"
proof -
  let ?s = "dispatch_all initialState (press [Digit ''5'', Operator Add, Digit ''3''])"
  let ?t = "dispatch_all initialState (press [Digit ''5'', Operator Add])"
  have f: "firstOperand ?s = Some (Finite 5)" by code_simp
  have o: "operator ?s = Some Add" by code_simp
  have w: "\<not> waitingForSecond ?s" by code_simp
  have d: "display ?s = ''3''" by code_simp
  have c: "formatResult (calculate (Finite 5) (parseDisplay ''3'') Add) = ''8''" by code_simp
  have o': "operator ?t \<noteq> None" by code_simp
  have w': "waitingForSecond ?t" by code_simp
  have p: "firstOperand ?s = Some (Finite 5) \<and> operator ?s = Some Add \<and> \<not> waitingForSecond ?s"
    using f o w by simp
  have p': "operator ?t \<noteq> None \<and> waitingForSecond ?t"
    using o' w' by simp
  note compute =
    operator_chaining [of ?s "Finite 5" Add env0 Subtract, THEN conjunct1, THEN mp, OF p]
  note replace =
    operator_chaining [of ?t _ _ env0 Multiply, THEN conjunct2, THEN conjunct1, THEN mp, OF p']
  have "display (reducer env0 ?s (Operator Subtract))
        = formatResult (calculate (Finite 5) (parseDisplay (display ?s)) Add)"
    by (simp only: compute State.select_convs)
  then have r: "display (reducer env0 ?s (Operator Subtract)) = ''8''"
    by (simp only: d c)
  have r': "operator (reducer env0 ?t (Operator Multiply)) = Some Multiply"
    by (simp only: replace) simp
  show ?thesis using f o w r w' r' by (intro conjI)
qed

subsection \<open>C4: division by zero\<close>

text \<open>
  C4: \<open>calculate a b Divide\<close> is positive infinity when \<open>b\<close> is zero and the
  quotient otherwise (for finite operands, the quotient rounded to binary64); it
  is a total function, nothing is raised. A result that is not finite is
  rendered as \<open>Error\<close>, so \<open>6 \<div> 0\<close> formats to \<open>Error\<close>.
\<close>

theorem divide_by_zero_is_error:
  "calculate a b Divide = (if b = Finite 0 then Infinity else js_div a b)
   \<and> calculate (Finite x) (Finite y) Divide = (if y = 0 then Infinity else round64 (x / y))
   \<and> formatResult Infinity = ''Error''
   \<and> formatResult NegInfinity = ''Error''
   \<and> formatResult NaN = ''Error''
   \<and> formatResult (calculate (Finite 6) (Finite 0) Divide) = ''Error''"
  by (simp add: calculate_def formatResult_def)

theorem divide_by_zero_is_error_witness:
  "calculate (Finite 6) (Finite 0) Divide = Infinity
   \<and> calculate (Finite 6) (Finite 3) Divide = Finite 2"
  using divide_by_zero_is_error [of "Finite 6" "Finite 0" 6 3] by (simp add: round64_values)

subsection \<open>C5: percent\<close>

text \<open>
  C5, as stated, has \<open>Percent\<close> show the formatted value of
  \<open>firstOperand \<times> (display / 100)\<close> in the middle of an operation. The code
  computes \<open>(firstOperand * current) / 100\<close>, and the two differ in binary64:
  after \<open>7183 + 55\<close> the code shows \<open>3950.65\<close>, where the stated product
  formats to \<open>3950.650000000001\<close>.
\<close>

theorem percent_grouping_counterexample:
  "firstOperand (dispatch_all initialState percent_of_7183) = Some (Finite 7183)
   \<and> operator (dispatch_all initialState percent_of_7183) = Some Add
   \<and> \<not> waitingForSecond (dispatch_all initialState percent_of_7183)
   \<and> parseFloat (display (dispatch_all initialState percent_of_7183)) = Finite 55
   \<and> display (reducer env0 (dispatch_all initialState percent_of_7183) Percent) = ''3950.65''
   \<and> formatResult (js_mul (Finite 7183) (js_div (Finite 55) (Finite 100)))
     = ''3950.650000000001''"
  by code_simp

text \<open>
  C5 (amended): \<open>Percent\<close> sets the display to the formatted value of
  \<open>(firstOperand \<times> display) / 100\<close>, the product first and then the division,
  when a first operand and an operator are set and the second operand has been
  started, and to the formatted value of \<open>display / 100\<close> in every other
  state. The value of the display is \<open>parseFloat(display) || 0\<close>, which is
  \<open>parseDisplay\<close> of the display unless the text reads as an infinity.
\<close>

theorem percent_of_base:
  "(firstOperand s = Some a \<and> operator s = Some op \<and> \<not> waitingForSecond s \<longrightarrow>
      display (reducer env s Percent)
      = formatResult (js_div (js_mul a (or_zero (parseFloat (display s)))) (Finite 100)))
   \<and> (\<not> (firstOperand s \<noteq> None \<and> operator s \<noteq> None \<and> \<not> waitingForSecond s) \<longrightarrow>
      display (reducer env s Percent)
      = formatResult (js_div (or_zero (parseFloat (display s))) (Finite 100)))
   \<and> (parseFloat (display s) \<noteq> Infinity \<and> parseFloat (display s) \<noteq> NegInfinity \<longrightarrow>
      or_zero (parseFloat (display s)) = parseDisplay (display s))"
proof (intro conjI impI)
  assume "firstOperand s = Some a \<and> operator s = Some op \<and> \<not> waitingForSecond s"
  then show "display (reducer env s Percent)
      = formatResult (js_div (js_mul a (or_zero (parseFloat (display s)))) (Finite 100))"
    by (simp add: Let_def)
next
  assume "\<not> (firstOperand s \<noteq> None \<and> operator s \<noteq> None \<and> \<not> waitingForSecond s)"
  then show "display (reducer env s Percent)
      = formatResult (js_div (or_zero (parseFloat (display s))) (Finite 100))"
    by (auto simp: Let_def split: option.splits)
next
  assume "parseFloat (display s) \<noteq> Infinity \<and> parseFloat (display s) \<noteq> NegInfinity"
  then show "or_zero (parseFloat (display s)) = parseDisplay (display s)"
    by (cases "parseFloat (display s)") (simp_all add: or_zero_def parseDisplay_def isFinite_def)
qed

theorem percent_of_base_witness:
  "firstOperand (dispatch_all initialState
       (press [Digit ''2'', Digit ''0'', Digit ''0'', Operator Add, Digit ''1'', Digit ''0'']))
     = Some (Finite 200)
   \<and> display (reducer env0 (dispatch_all initialState
       (press [Digit ''2'', Digit ''0'', Digit ''0'', Operator Add, Digit ''1'', Digit ''0'']))
       Percent) = ''20''
   \<and> display (reducer env0 (dispatch_all initialState (press [Digit ''5'', Digit ''0''])) Percent)
     = ''0.5''
   \<and> or_zero (parseFloat (display (dispatch_all initialState (press [Digit ''5'', Digit ''0'']))))
     = parseDisplay (display (dispatch_all initialState (press [Digit ''5'', Digit ''0''])))"
proof -
  let ?s = "dispatch_all initialState
       (press [Digit ''2'', Digit ''0'', Digit ''0'', Operator Add, Digit ''1'', Digit ''0''])"
  let ?t = "dispatch_all initialState (press [Digit ''5'', Digit ''0''])"
  have f: "firstOperand ?s = Some (Finite 200)" by code_simp
  have o: "operator ?s = Some Add" by code_simp
  have w: "\<not> waitingForSecond ?s" by code_simp
  have d: "display ?s = ''10''" by code_simp
  have c: "formatResult (js_div (js_mul (Finite 200) (or_zero (parseFloat ''10''))) (Finite 100))
           = ''20''" by code_simp
  have f': "firstOperand ?t = None" by code_simp
  have d': "display ?t = ''50''" by code_simp
  have c': "formatResult (js_div (or_zero (parseFloat ''50'')) (Finite 100)) = ''0.5''"
    by code_simp
  have p: "firstOperand ?s = Some (Finite 200) \<and> operator ?s = Some Add \<and> \<not> waitingForSecond ?s"
    using f o w by simp
  have p': "\<not> (firstOperand ?t \<noteq> None \<and> operator ?t \<noteq> None \<and> \<not> waitingForSecond ?t)"
    using f' by simp
  note base =
    percent_of_base [of ?s "Finite 200" Add env0, THEN conjunct1, THEN mp, OF p]
  note plain =
    percent_of_base [of ?t _ _ env0, THEN conjunct2, THEN conjunct1, THEN mp, OF p']
  have r: "display (reducer env0 ?s Percent) = ''20''" by (simp only: base d c)
  have r': "display (reducer env0 ?t Percent) = ''0.5''" by (simp only: plain d' c')
  have q: "parseFloat (display ?t) \<noteq> Infinity \<and> parseFloat (display ?t) \<noteq> NegInfinity"
    unfolding d' by code_simp
  note same =
    percent_of_base [of ?t _ _ env0, THEN conjunct2, THEN conjunct2, THEN mp, OF q]
  show ?thesis using f r r' same by (intro conjI)
qed

subsection \<open>C6: the history is bounded\<close>

text \<open>
  C6: a history push puts the new entry in front and keeps the first 25
  entries. So a push never yields more than 25 entries, the history of every
  reachable state has at most 25 entries, and a push onto 25 entries drops
  exactly the last, the oldest, one.
\<close>

theorem history_bounded:
  "pushHistory env h e r 25 =
     take 25 (\<lparr>item_id = toString (Finite (of_int (now_id env))) @ ''-'' @ drop 2 (random36 env),
               expression = e, result = r, ts = now_ts env\<rparr> # h)
   \<and> length (pushHistory env h e r 25) \<le> 25
   \<and> length (history (dispatch_all initialState events)) \<le> 25
   \<and> (length h = 25 \<longrightarrow>
        pushHistory env h e r 25 =
          \<lparr>item_id = toString (Finite (of_int (now_id env))) @ ''-'' @ drop 2 (random36 env),
           expression = e, result = r, ts = now_ts env\<rparr> # butlast h)"
proof (intro conjI impI)
  show "length (history (dispatch_all initialState events)) \<le> 25"
    by (rule dispatch_all_invariant [where P = "\<lambda>s. length (history s) \<le> 25"])
      (simp_all add: initialState_def reducer_history_length del: reducer.simps)
next
  assume "length h = 25"
  then have "take 24 h = butlast h" by (simp add: butlast_conv_take)
  then show "pushHistory env h e r 25 =
          \<lparr>item_id = toString (Finite (of_int (now_id env))) @ ''-'' @ drop 2 (random36 env),
           expression = e, result = r, ts = now_ts env\<rparr> # butlast h"
    by (simp add: pushHistory_eq)
qed (simp_all add: pushHistory_eq)

theorem history_bounded_witness:
  "length full_history = 25
   \<and> map ts (pushHistory env0 full_history ''2 + 2 ='' ''4'' 25) = 1700000000000 # [1..24]"
proof -
  have l: "length full_history = 25" by code_simp
  have b: "map ts (butlast full_history) = [1..24]" by code_simp
  note evict =
    history_bounded [of env0 full_history "''2 + 2 =''" "''4''", THEN conjunct2, THEN conjunct2,
      THEN conjunct2, THEN mp, OF l]
  have "map ts (pushHistory env0 full_history ''2 + 2 ='' ''4'' 25)
        = now_ts env0 # map ts (butlast full_history)"
    by (simp only: evict list.map HistoryItem.select_convs)
  then show ?thesis using l b by (simp add: env0_def)
qed

subsection \<open>C7: clear\<close>

text \<open>
  C7: \<open>Clear\<close> yields the display \<open>0\<close>, no first operand, no operator and
  \<open>waitingForSecond\<close> false, with the history and the memory of the input
  state; a second \<open>Clear\<close> changes nothing.
\<close>

theorem clear_resets:
  "reducer env s Clear =
     \<lparr>display = ''0'', firstOperand = None, operator = None, waitingForSecond = False,
      memory = memory s, history = history s\<rparr>
   \<and> reducer env' (reducer env s Clear) Clear = reducer env s Clear"
  by (simp add: initialState_def)

theorem clear_resets_witness:
  "reducer env0 (dispatch_all initialState (press [Digit ''4'', MemoryAdd, Operator Add, Digit ''7''])) Clear
   = \<lparr>display = ''0'', firstOperand = None, operator = None, waitingForSecond = False,
      memory = Some (Finite 4), history = []\<rparr>"
proof -
  let ?s = "dispatch_all initialState (press [Digit ''4'', MemoryAdd, Operator Add, Digit ''7''])"
  have m: "memory ?s = Some (Finite 4)" by code_simp
  have h: "history ?s = []" by code_simp
  show ?thesis
    by (simp only: clear_resets [of env0 ?s, THEN conjunct1] m h)
qed

subsection \<open>C8: the memory register\<close>

text \<open>
  C8: \<open>MemoryAdd\<close> sets the memory to the memory, or zero when it is empty,
  plus the parsed display and changes nothing else; \<open>MemoryRecall\<close> with a
  memory present shows the formatted memory and clears \<open>waitingForSecond\<close>.
  The run \<open>Clear, 4, M+, Clear, 1, M+, MR\<close> ends with the display \<open>5\<close>.
\<close>

theorem memory_round_trip:
  "reducer env s MemoryAdd =
     s\<lparr>memory := Some (js_add (case memory s of None \<Rightarrow> Finite 0 | Some m' \<Rightarrow> m')
                          (parseDisplay (display s)))\<rparr>
   \<and> (memory s = Some m \<longrightarrow>
        reducer env s MemoryRecall = s\<lparr>display := formatResult m, waitingForSecond := False\<rparr>)
   \<and> display (dispatch_all initialState
        [(e1, Clear), (e2, Digit ''4''), (e3, MemoryAdd), (e4, Clear), (e5, Digit ''1''),
         (e6, MemoryAdd), (e7, MemoryRecall)])
      = ''5''"
  by (simp add: run_simps)

theorem memory_round_trip_witness:
  "memory (dispatch_all initialState (press [Digit ''4'', MemoryAdd, Operator Add])) = Some (Finite 4)
   \<and> display (reducer env0
        (dispatch_all initialState (press [Digit ''4'', MemoryAdd, Operator Add])) MemoryRecall) = ''4''
   \<and> \<not> waitingForSecond (reducer env0
        (dispatch_all initialState (press [Digit ''4'', MemoryAdd, Operator Add])) MemoryRecall)"
proof -
  let ?s = "dispatch_all initialState (press [Digit ''4'', MemoryAdd, Operator Add])"
  have m: "memory ?s = Some (Finite 4)" by code_simp
  have c: "formatResult (Finite 4) = ''4''" by code_simp
  note recall =
    memory_round_trip [of env0 ?s "Finite 4", THEN conjunct2, THEN conjunct1, THEN mp, OF m]
  have r: "display (reducer env0 ?s MemoryRecall) = ''4''"
    by (simp only: recall) (simp add: c)
  have r': "\<not> waitingForSecond (reducer env0 ?s MemoryRecall)"
    by (simp only: recall) simp
  show ?thesis using m r r' by (intro conjI)
qed

subsection \<open>C9: a first operand comes with an operator\<close>

text \<open>
  C9: in every state reachable from the initial state, a first operand is set
  only together with an operator. So \<open>Operator\<close> never takes its last branch,
  which returns the state unchanged: it replaces the pending operator, or
  captures the display as first operand, or computes; in each case the new
  operator is pending afterwards.
\<close>

theorem operand_implies_operator:
  assumes "reachable s"
  shows "(firstOperand s \<noteq> None \<longrightarrow> operator s \<noteq> None)
         \<and> operator (reducer env s (Operator op)) = Some op
         \<and> (reducer env s (Operator op) = s\<lparr>operator := Some op\<rparr>
            \<or> reducer env s (Operator op) =
                 s\<lparr>firstOperand := Some (parseDisplay (display s)), operator := Some op,
                   waitingForSecond := True\<rparr>
            \<or> (\<exists>a pending. firstOperand s = Some a \<and> operator s = Some pending
                  \<and> firstOperand (reducer env s (Operator op))
                      = Some (calculate a (parseDisplay (display s)) pending)
                  \<and> display (reducer env s (Operator op))
                      = formatResult (calculate a (parseDisplay (display s)) pending)
                  \<and> waitingForSecond (reducer env s (Operator op))))"
proof -
  from assms obtain events where s: "s = dispatch_all initialState events"
    by (auto simp: reachable_def)
  have "operand_has_operator (dispatch_all initialState events)"
  proof (rule dispatch_all_invariant)
    show "operand_has_operator initialState"
      by (simp add: operand_has_operator_def initialState_def)
  qed (rule reducer_operand_has_operator)
  then have inv: "firstOperand s \<noteq> None \<longrightarrow> operator s \<noteq> None"
    by (simp add: s operand_has_operator_def)
  show ?thesis
  proof (cases "firstOperand s")
    case None
    then show ?thesis by (cases "operator s") (auto simp: Let_def)
  next
    case (Some a)
    with inv obtain pending where "operator s = Some pending" by auto
    with Some show ?thesis by (auto simp: Let_def)
  qed
qed

theorem operand_implies_operator_witness:
  "reachable (dispatch_all initialState (press [Digit ''5'', Operator Add, Digit ''3'']))
   \<and> firstOperand (dispatch_all initialState (press [Digit ''5'', Operator Add, Digit ''3'']))
       = Some (Finite 5)
   \<and> operator (dispatch_all initialState (press [Digit ''5'', Operator Add, Digit ''3'']))
       \<noteq> None
   \<and> operator (reducer env0
        (dispatch_all initialState (press [Digit ''5'', Operator Add, Digit ''3'']))
        (Operator Multiply)) = Some Multiply"
proof -
  let ?s = "dispatch_all initialState (press [Digit ''5'', Operator Add, Digit ''3''])"
  have r: "reachable ?s" unfolding reachable_def by blast
  have f: "firstOperand ?s = Some (Finite 5)" by code_simp
  have f': "firstOperand ?s \<noteq> None" by (simp only: f) simp
  note inv = operand_implies_operator [OF r, of env0 Multiply, THEN conjunct1, THEN mp, OF f']
  note pending = operand_implies_operator [OF r, of env0 Multiply, THEN conjunct2, THEN conjunct1]
  show ?thesis using r f inv pending by (intro conjI)
qed

subsection \<open>C10: percent changes the display only\<close>

text \<open>
  C10: \<open>Percent\<close> changes no field but the display, so a pending operation
  survives it and \<open>Equals\<close> then takes the percent result as second operand:
  \<open>200 + 10 % =\<close> computes \<open>200 + 20\<close>.
\<close>

theorem percent_frame:
  "reducer env s Percent = s\<lparr>display := display (reducer env s Percent)\<rparr>
   \<and> firstOperand (reducer env s Percent) = firstOperand s
   \<and> operator (reducer env s Percent) = operator s
   \<and> waitingForSecond (reducer env s Percent) = waitingForSecond s
   \<and> memory (reducer env s Percent) = memory s
   \<and> history (reducer env s Percent) = history s
   \<and> map (\<lambda>h. (expression h, result h))
        (history (dispatch_all initialState
           [(e1, Digit ''2''), (e2, Digit ''0''), (e3, Digit ''0''), (e4, Operator Add),
            (e5, Digit ''1''), (e6, Digit ''0''), (e7, Percent), (e8, Equals)]))
      = [(''200 + 20 ='', ''220'')]
   \<and> display (dispatch_all initialState
        [(e1, Digit ''2''), (e2, Digit ''0''), (e3, Digit ''0''), (e4, Operator Add),
         (e5, Digit ''1''), (e6, Digit ''0''), (e7, Percent), (e8, Equals)])
      = ''220''"
proof (intro conjI)
  show "map (\<lambda>h. (expression h, result h))
        (history (dispatch_all initialState
           [(e1, Digit ''2''), (e2, Digit ''0''), (e3, Digit ''0''), (e4, Operator Add),
            (e5, Digit ''1''), (e6, Digit ''0''), (e7, Percent), (e8, Equals)]))
      = [(''200 + 20 ='', ''220'')]"
    by (simp add: run_simps)
next
  show "display (dispatch_all initialState
        [(e1, Digit ''2''), (e2, Digit ''0''), (e3, Digit ''0''), (e4, Operator Add),
         (e5, Digit ''1''), (e6, Digit ''0''), (e7, Percent), (e8, Equals)])
      = ''220''"
    by (simp add: run_simps)
qed (auto simp: Let_def split: option.splits)

theorem percent_frame_witness:
  "operator (reducer env0 (dispatch_all initialState
       (press [Digit ''2'', Digit ''0'', Digit ''0'', Operator Add, Digit ''1'', Digit ''0'']))
       Percent) = Some Add
   \<and> firstOperand (reducer env0 (dispatch_all initialState
       (press [Digit ''2'', Digit ''0'', Digit ''0'', Operator Add, Digit ''1'', Digit ''0'']))
       Percent) = Some (Finite 200)"
proof -
  let ?s = "dispatch_all initialState
       (press [Digit ''2'', Digit ''0'', Digit ''0'', Operator Add, Digit ''1'', Digit ''0''])"
  have f: "firstOperand ?s = Some (Finite 200)" by code_simp
  have o: "operator ?s = Some Add" by code_simp
  note frame = percent_frame [of env0 ?s, THEN conjunct2]
  show ?thesis
    by (simp only: frame [THEN conjunct1] frame [THEN conjunct2, THEN conjunct1] f o)
qed

end
